theory Spec2Isabelle
  imports Main
begin

section \<open>Strings and small JavaScript idioms\<close>

text \<open>
  A JavaScript string is a sequence of UTF-16 code units and \<^verbatim>\<open>.length\<close> counts them.
  \<^typ>\<open>string\<close> stands for it with one \<^typ>\<open>char\<close> per code unit, so \<^const>\<open>length\<close> is
  \<^verbatim>\<open>.length\<close>; every literal of the sources is ASCII. A string is truthy when it is
  not empty.
\<close>

definition startsWith :: "string \<Rightarrow> string \<Rightarrow> bool" where
  \<comment> \<open>\<^verbatim>\<open>s.startsWith(p)\<close>\<close>
  "startsWith s p = (take (length p) s = p)"

definition nl :: string where
  \<comment> \<open>the escape \<^verbatim>\<open>\n\<close> of a JavaScript literal\<close>
  "nl = [CHR 0x0A]"

definition bs :: string where
  \<comment> \<open>the escape \<^verbatim>\<open>\\\<close> of a JavaScript literal: one backslash\<close>
  "bs = [CHR 0x5C]"

definition bq :: string where
  \<comment> \<open>a backquote inside a template literal\<close>
  "bq = [CHR 0x60]"

section \<open>Data model\<close>

subsection \<open>Commands\<close>

text \<open>
  The union type \<^verbatim>\<open>BotCommand\<close> of src/index.ts (lines 16 to 23). Message texts are
  compared with the string literals themselves; \<^verbatim>\<open>reportEvent\<close> takes a value of
  this type.
\<close>

datatype BotCommand = Start | Login | InstallationId | Logout | Stop | Info | Search

fun command_text :: "BotCommand \<Rightarrow> string" where
  "command_text Start = ''/start''"
| "command_text Login = ''/login''"
| "command_text InstallationId = ''/installation_id''"
| "command_text Logout = ''/logout''"
| "command_text Stop = ''/stop''"
| "command_text Info = ''/info''"
| "command_text Search = ''/search''"

subsection \<open>The lookup provider\<close>

text \<open>
  Modelled from the spec: the type \<^verbatim>\<open>LoginResponse\<close> is declared by the imported
  library truecallerjs, not by this repository. The spec gives the shape of a login
  response as \<^verbatim>\<open>{ status, message, opaqueToken, parsedCountryCode }\<close>; the handler reads
  \<^verbatim>\<open>status\<close>, \<^verbatim>\<open>message\<close> and \<^verbatim>\<open>parsedCountryCode\<close> and forwards the rest untouched.
\<close>

record LoginResponse =
  status :: int
  message :: string
  opaqueToken :: string
  parsedCountryCode :: string

text \<open>
  Modelled from the spec: the value of \<^verbatim>\<open>verifyOtp\<close>, which the handler casts to
  \<^verbatim>\<open>Record<string, unknown>\<close>. The spec gives \<^verbatim>\<open>{ status, suspended?, installationId?, message? }\<close>;
  an optional field that is missing is \<^const>\<open>None\<close>. The handler casts \<^verbatim>\<open>installationId\<close>
  and \<^verbatim>\<open>message\<close> to strings.
\<close>

record OtpResponse =
  status :: int
  suspended :: "bool option"
  installationId :: "string option"
  message :: "string option"

text \<open>
  An error object as the handler reads it: \<^verbatim>\<open>error.response?.data\<close> with its optional
  \<^verbatim>\<open>status\<close> and \<^verbatim>\<open>message\<close>.
\<close>

record ErrorData =
  status :: "int option"
  message :: "string option"

record JsError =
  name :: string
  message :: string
  responseData :: "ErrorData option"

record SearchData =
  number :: string
  countryCode :: string
  installationId :: string

text \<open>
  The value of \<^verbatim>\<open>search\<close>: \<^verbatim>\<open>searchResult.json()\<close> is either an \<^verbatim>\<open>Error\<close> that the library
  wrapped instead of throwing, or the data behind \<^verbatim>\<open>searchResult.getName()\<close>.
\<close>

datatype SearchResult = WrappedError JsError | Found (getName: string)

text \<open>
  The three operations imported from the library. Each is awaited, so each either yields a
  value (\<^const>\<open>Inr\<close>) or rejects with an error that the handler does not catch (\<^const>\<open>Inl\<close>).
\<close>

record Provider =
  login :: "string \<Rightarrow> JsError + LoginResponse"
  verifyOtp :: "string \<Rightarrow> LoginResponse \<Rightarrow> string \<Rightarrow> JsError + OtpResponse"
  search :: "SearchData \<Rightarrow> JsError + SearchResult"

subsection \<open>The stored session\<close>

text \<open>
  The tagged union \<^verbatim>\<open>KvValue\<close> (src/index.ts, lines 83 to 100). The selectors are the
  fields of the variants; as in TypeScript they are read only after the tag has been
  compared.
\<close>

datatype KvValue =
    AwaitingPhoneNo
  | AwaitingOtp (phoneNumber: string) (loginResponse: LoginResponse)
  | AwaitingInstallationId
  | AwaitingCountryCode (installationId: string)
  | LoggedIn (installationId: string) (countryCode: string)
  | LoggedOut

fun status :: "KvValue \<Rightarrow> string" where
  "status AwaitingPhoneNo = ''awaiting_phone_no''"
| "status (AwaitingOtp _ _) = ''awaiting_otp''"
| "status AwaitingInstallationId = ''awaiting_installation_id''"
| "status (AwaitingCountryCode _) = ''awaiting_country_code''"
| "status (LoggedIn _ _) = ''logged_in''"
| "status LoggedOut = ''logged_out''"

definition all_statuses :: "string list" where
  "all_statuses = [''awaiting_phone_no'', ''awaiting_otp'', ''awaiting_installation_id'',
     ''awaiting_country_code'', ''logged_in'', ''logged_out'']"

subsection \<open>Requests and responses\<close>

record Message =
  chat_id :: int
  message_text :: "string option"

record ChatMemberUpdated =
  chat_id :: int
  new_chat_member_status :: string

record Update =
  message :: "Message option"
  my_chat_member :: "ChatMemberUpdated option"

text \<open>
  A request: its method (\<^verbatim>\<open>request.method\<close>), and the value of \<^verbatim>\<open>await request.json().catch(console.error)\<close>,
  which is \<^const>\<open>None\<close> when the body does not parse.
\<close>

record Request =
  http_method :: string
  json :: "Update option"

text \<open>
  The JSON body built by \<^verbatim>\<open>sendTgMessage\<close>. A key that a version of the file does not
  write, or writes as \<^verbatim>\<open>undefined\<close>, is \<^const>\<open>None\<close>.
\<close>

record SendMessage =
  chat_id :: "int option"
  parse_mode :: "string option"
  disable_web_page_preview :: "bool option"
  link_preview_is_disabled :: "bool option"
  reply_text :: string

datatype Response = Status404 | EmptyResponse | Json SendMessage

subsection \<open>Effects\<close>

text \<open>
  What a run of the handler does to the outside, in order: the typing indicator, writes and
  deletes on the key \<^verbatim>\<open>["users", chat]\<close> of the store, calls of \<^verbatim>\<open>reportEvent\<close>, and calls of
  the provider.
\<close>

datatype Effect =
    SendChatAction int
  | KvSet int KvValue
  | KvDelete int
  | ReportEvent BotCommand
  | CallLogin string
  | CallVerifyOtp string LoginResponse string
  | CallSearch SearchData

text \<open>
  The state a request starts from: the store, and the module variable \<^verbatim>\<open>tgChatId\<close>.
\<close>

record World =
  kv :: "int \<rightharpoonup> KvValue"
  tgChatId :: "int option"

record Outcome =
  effects :: "Effect list"
  tgChatId_after :: "int option"
  result :: "JsError + Response"

fun kv_apply :: "Effect \<Rightarrow> (int \<rightharpoonup> KvValue) \<Rightarrow> (int \<rightharpoonup> KvValue)" where
  "kv_apply (KvSet c v) m = m(c \<mapsto> v)"
| "kv_apply (KvDelete c) m = m(c := None)"
| "kv_apply _ m = m"

definition kv_after :: "World \<Rightarrow> Outcome \<Rightarrow> (int \<rightharpoonup> KvValue)" where
  \<comment> \<open>the store once the writes and deletes of a run have been applied\<close>
  "kv_after w out = fold kv_apply (effects out) (kv w)"

fun is_kv_op :: "Effect \<Rightarrow> bool" where
  "is_kv_op (KvSet _ _) = True"
| "is_kv_op (KvDelete _) = True"
| "is_kv_op _ = False"

fun is_provider_call :: "Effect \<Rightarrow> bool" where
  "is_provider_call (CallLogin _) = True"
| "is_provider_call (CallVerifyOtp _ _ _) = True"
| "is_provider_call (CallSearch _) = True"
| "is_provider_call _ = False"

section \<open>Reply texts\<close>

text \<open>The literals that the three versions of the handler pass to \<^verbatim>\<open>sendTgMessage\<close>.\<close>

definition onboarding_text :: string where
  "onboarding_text = ''You need to /login to Truecaller with your existing account to use the bot.''
     @ nl @ ''Only you will be using your own account to search the numbers.''"

definition onboarding_text_non_eu :: string where
  "onboarding_text_non_eu =
     ''You need to /login to Truecaller with your existing non-EU account to use the bot.''
     @ nl @ ''Only you will be using your own account to search the numbers.''"

definition about_text :: string where
  "about_text = ''[Source Code](https://github.com/ni554n/truecallerjs_bot) *'' @ bs @ ''|* [anissan''
     @ bs @ ''.com](https://anissan.com)''"

definition info_text :: "KvValue \<Rightarrow> string" where
  \<comment> \<open>the body of the \<^verbatim>\<open>/info\<close> branch, src/index.ts lines 115 to 134\<close>
  "info_text kvValue =
     (let status0 = (if status kvValue = ''logged_in'' then ''Logged in'' else ''Logged out'');
          installationId0 =
            (if status kvValue = ''logged_in'' then Some (KvValue.installationId kvValue) else None);
          status1 = ''*Status:* '' @ status0;
          installationId1 =
            (case installationId0 of
               None \<Rightarrow> []
             | Some i \<Rightarrow>
                 if i \<noteq> [] then
                   nl @ ''[Installation ID:](https://github.com/sumithemmadi/truecallerjs#simple-example) ''
                   @ bq @ i @ bq
                 else [])
      in status1 @ installationId1 @ nl @ nl @ about_text)"

definition already_logged_in_installation_id :: string where
  "already_logged_in_installation_id =
     ''You are already logged in.'' @ nl @ ''/logout first and then try again.''"

definition installation_id_prompt :: string where
  "installation_id_prompt =
     ''_installation'' @ bs @ ''_id_ is the final auth token generated after a successful truecaller login''
     @ bs @ ''.'' @ nl @ nl
     @ ''If you know how to retrieve it from an already logged in device, you can directly set it here without going through the login process again''
     @ bs @ ''.'' @ nl @ nl @ ''Enter the installation ID:''"

definition country_code_prompt :: string where
  "country_code_prompt =
     ''Enter your phone number's 2'' @ bs
     @ ''-letter [ISO country code](https://en.wikipedia.org/wiki/List_of_ISO_3166_country_codes):''"

definition country_code_format_error :: string where
  "country_code_format_error =
     ''Invalid country code. It should be a 2-letter ISO code like 'IN' for India, 'US' for the USA, etc.''"

definition login_success :: string where
  "login_success =
     ''Successfully logged in to Truecaller.'' @ nl @ ''You can now search any number.''"

definition logout_confirmation :: string where
  "logout_confirmation = ''You've been logged out''"

definition already_logged_in :: string where
  "already_logged_in = ''You are already logged in. /logout first and then try /login again.''"

definition phone_number_prompt :: string where
  "phone_number_prompt =
     ''Enter your Truecaller account phone no. in international (+19...) format:''"

definition phone_number_prompt_non_eu :: string where
  "phone_number_prompt_non_eu =
     ''Enter your (non-EU) Truecaller account phone number in international (+19...) format:''"

definition phone_number_format_error :: string where
  "phone_number_format_error = ''Phone number should be in international format like +91...''"

definition attempts_exceeded :: string where
  "attempts_exceeded = ''You have exceeded the limit of verification attempts.'' @ nl
     @ ''Please try again after some time (up to 24h).''"

definition attempts_exceeded_short :: string where
  "attempts_exceeded_short = ''You have exceeded the limit of verification attempts.'' @ nl
     @ ''Please try again after some time.''"

definition otp_prompt :: string where
  "otp_prompt = ''Enter the OTP from SMS or WhatsApp:''"

definition account_suspended :: string where
  "account_suspended = ''Your account has been suspended by Truecaller.'' @ nl
     @ ''Try to /login with another number.''"

definition invalid_otp :: string where
  "invalid_otp = ''Invalid OTP''"

definition retries_exceeded :: string where
  "retries_exceeded = ''Retries limit exceeded''"

definition unknown_error :: string where
  "unknown_error = ''Unknown error. Try again.''"

definition login_first :: string where
  "login_first = ''Please /login first before searching for a number''"

definition account_error :: "string \<Rightarrow> string" where
  \<comment> \<open>the template literal of src/index.ts line 325\<close>
  "account_error apiMessage =
     ''Truecaller responded with an account error: '' @ bq @ apiMessage @ bq @ bs @ ''.'' @ nl @ nl
     @ ''Make sure your account is still valid by login into the official app'' @ bs @ ''.'' @ nl @ nl
     @ ''Try to /login here again after checking'' @ bs @ ''.''"

section \<open>src/index.ts\<close>

definition sendTgMessage :: "int option \<Rightarrow> string \<Rightarrow> bool \<Rightarrow> Response" where
  \<comment> \<open>lines 339 to 354; the first argument is the module variable \<^verbatim>\<open>tgChatId\<close>\<close>
  "sendTgMessage tg txt formatted =
     Json \<lparr>SendMessage.chat_id = tg,
           parse_mode = (if formatted then Some ''MarkdownV2'' else None),
           disable_web_page_preview = Some True,
           link_preview_is_disabled = None,
           reply_text = txt\<rparr>"

definition account_error_status :: "JsError \<Rightarrow> bool" where
  \<comment> \<open>lines 320 to 323: \<^verbatim>\<open>status\<close> defaults to the empty string, which equals neither number\<close>
  "account_error_status e =
     (case responseData e of
        None \<Rightarrow> False
      | Some d \<Rightarrow> ErrorData.status d = Some 40101 \<or> ErrorData.status d = Some 42601)"

definition apiMessage :: "JsError \<Rightarrow> string" where
  \<comment> \<open>lines 320 to 321: \<^verbatim>\<open>message\<close> of the response data, the empty string by default\<close>
  "apiMessage e =
     (case responseData e of
        None \<Rightarrow> []
      | Some d \<Rightarrow> (case ErrorData.message d of None \<Rightarrow> [] | Some m \<Rightarrow> m))"

definition otp_failure_text :: "OtpResponse \<Rightarrow> string" where
  \<comment> \<open>line 284: \<^verbatim>\<open>(otpResponse.message as string) || "Unknown error. Try again."\<close>\<close>
  "otp_failure_text otpResponse =
     (case OtpResponse.message otpResponse of
        None \<Rightarrow> unknown_error
      | Some m \<Rightarrow> if m \<noteq> [] then m else unknown_error)"

definition truthy_string :: "string option \<Rightarrow> bool" where
  \<comment> \<open>truthiness of an optional string: present and not empty\<close>
  "truthy_string x = (case x of None \<Rightarrow> False | Some s \<Rightarrow> s \<noteq> [])"

text \<open>
  Lines 75 to 335: the handler once a message with a text has arrived from chat \<open>c\<close>. The
  first argument of every \<^const>\<open>sendTgMessage\<close> is \<open>Some c\<close>, the value line 75 has just
  assigned to \<^verbatim>\<open>tgChatId\<close>. The result is the list of effects after the typing indicator,
  and the response or the error thrown.
\<close>

definition on_text :: "Provider \<Rightarrow> KvValue \<Rightarrow> int \<Rightarrow> string \<Rightarrow> Effect list \<times> (JsError + Response)" where
  "on_text P kvValue c t =
    (if t = ''/start'' then
       ((if status kvValue = ''logged_out'' then [ReportEvent Start] else []),
        Inr (sendTgMessage (Some c) onboarding_text False))
     else if t = ''/info'' then
       ([], Inr (sendTgMessage (Some c) (info_text kvValue) True))
     else if t = ''/installation_id'' then
       (if status kvValue = ''logged_in'' then
          ([], Inr (sendTgMessage (Some c) already_logged_in_installation_id False))
        else
          ([KvSet c AwaitingInstallationId],
           Inr (sendTgMessage (Some c) installation_id_prompt True)))
     else if status kvValue = ''awaiting_installation_id'' \<and> \<not> startsWith t ''/'' then
       ([KvSet c (AwaitingCountryCode t), ReportEvent InstallationId],
        Inr (sendTgMessage (Some c) country_code_prompt True))
     else if status kvValue = ''awaiting_country_code'' \<and> \<not> startsWith t ''/'' then
       ([KvSet c (LoggedIn (KvValue.installationId kvValue) t)],
        Inr (sendTgMessage (Some c) login_success False))
     else if t = ''/logout'' then
       ([KvDelete c, ReportEvent Logout],
        Inr (sendTgMessage (Some c) logout_confirmation False))
     else if t = ''/login'' then
       (if status kvValue = ''logged_in'' then
          ([], Inr (sendTgMessage (Some c) already_logged_in False))
        else
          ([KvSet c AwaitingPhoneNo],
           Inr (sendTgMessage (Some c) phone_number_prompt False)))
     else if status kvValue = ''awaiting_phone_no'' \<and> \<not> startsWith t ''/'' then
       (if \<not> startsWith t ''+'' then
          ([], Inr (sendTgMessage (Some c) phone_number_format_error False))
        else
          (case login P t of
             Inl err \<Rightarrow> ([CallLogin t], Inl err)
           | Inr responseBody \<Rightarrow>
               if LoginResponse.status responseBody = 6 \<or> LoginResponse.status responseBody = 5 then
                 ([CallLogin t], Inr (sendTgMessage (Some c) attempts_exceeded False))
               else if \<not> (LoginResponse.status responseBody = 1
                            \<or> LoginResponse.status responseBody = 9
                            \<or> LoginResponse.message responseBody = ''Sent'') then
                 ([CallLogin t],
                  Inr (sendTgMessage (Some c) (LoginResponse.message responseBody) False))
               else
                 ([CallLogin t, KvSet c (AwaitingOtp t responseBody)],
                  Inr (sendTgMessage (Some c) otp_prompt False))))
     else if status kvValue = ''awaiting_otp'' \<and> \<not> startsWith t ''/'' then
       (let call = CallVerifyOtp (phoneNumber kvValue) (loginResponse kvValue) t in
        case verifyOtp P (phoneNumber kvValue) (loginResponse kvValue) t of
          Inl err \<Rightarrow> ([call], Inl err)
        | Inr otpResponse \<Rightarrow>
            if suspended otpResponse = Some True then
              ([call], Inr (sendTgMessage (Some c) account_suspended False))
            else if OtpResponse.status otpResponse = 11 then
              ([call], Inr (sendTgMessage (Some c) invalid_otp False))
            else if OtpResponse.status otpResponse = 7 then
              ([call], Inr (sendTgMessage (Some c) retries_exceeded False))
            else if \<not> truthy_string (OtpResponse.installationId otpResponse) then
              ([call], Inr (sendTgMessage (Some c) (otp_failure_text otpResponse) False))
            else
              ([call,
                KvSet c (LoggedIn (the (OtpResponse.installationId otpResponse))
                                  (parsedCountryCode (loginResponse kvValue))),
                ReportEvent Login],
               Inr (sendTgMessage (Some c) login_success False)))
     else if status kvValue \<noteq> ''logged_in'' then
       ([], Inr (sendTgMessage (Some c) login_first False))
     else
       (let searchData = \<lparr>number = t, countryCode = KvValue.countryCode kvValue,
                           installationId = KvValue.installationId kvValue\<rparr> in
        case search P searchData of
          Inl err \<Rightarrow> ([CallSearch searchData], Inl err)
        | Inr (WrappedError error) \<Rightarrow>
            if account_error_status error then
              ([CallSearch searchData],
               Inr (sendTgMessage (Some c) (account_error (apiMessage error)) True))
            else ([CallSearch searchData], Inl error)
        | Inr (Found n) \<Rightarrow>
            ([CallSearch searchData, ReportEvent Search],
             Inr (sendTgMessage (Some c) n False))))"

text \<open>
  Lines 55 to 337, the function that \<^verbatim>\<open>Deno.serve\<close> runs on a request. The key of the store
  is \<^verbatim>\<open>["users", chat]\<close>.
\<close>

definition loaded :: "World \<Rightarrow> int \<Rightarrow> KvValue" where
  \<comment> \<open>lines 102 to 104: \<^verbatim>\<open>(await kv.get(chatIdKey)).value ?? { status: "logged_out" }\<close>\<close>
  "loaded w c = (case kv w c of None \<Rightarrow> LoggedOut | Some v \<Rightarrow> v)"

definition kicked_chat :: "Update \<Rightarrow> int option" where
  \<comment> \<open>line 62: the chat of a membership change to \<^verbatim>\<open>"kicked"\<close>\<close>
  "kicked_chat u =
     (case my_chat_member u of
        None \<Rightarrow> None
      | Some m \<Rightarrow>
          if new_chat_member_status m = ''kicked'' then Some (ChatMemberUpdated.chat_id m)
          else None)"

definition truthy_text :: "Update \<Rightarrow> (int \<times> string) option" where
  \<comment> \<open>line 73, negated: \<^verbatim>\<open>message?.text\<close> is truthy; the chat and the text then\<close>
  "truthy_text u =
     (case Update.message u of
        None \<Rightarrow> None
      | Some m \<Rightarrow>
          (case message_text m of
             None \<Rightarrow> None
           | Some t \<Rightarrow> if t = [] then None else Some (Message.chat_id m, t)))"

definition webhook_handler :: "Provider \<Rightarrow> World \<Rightarrow> Request \<Rightarrow> Outcome" where
  "webhook_handler P w request =
    (if http_method request \<noteq> ''POST'' then
       \<lparr>effects = [], tgChatId_after = tgChatId w, result = Inr Status404\<rparr>
     else
       let u = (case json request of
                  None \<Rightarrow> \<lparr>Update.message = None, my_chat_member = None\<rparr>
                | Some u \<Rightarrow> u)
       in
       case kicked_chat u of
         Some k \<Rightarrow>
           \<lparr>effects = [KvDelete k, ReportEvent Stop],
            tgChatId_after = tgChatId w, result = Inr EmptyResponse\<rparr>
       | None \<Rightarrow>
           (case truthy_text u of
              None \<Rightarrow>
                \<lparr>effects = [], tgChatId_after = tgChatId w, result = Inr EmptyResponse\<rparr>
            | Some (c, t) \<Rightarrow>
                let kvValue = loaded w c;
                    (effs, res) = on_text P kvValue c t
                in \<lparr>effects = SendChatAction c # effs, tgChatId_after = Some c,
                    result = res\<rparr>))"

text \<open>
  Lines 423 to 446, \<^verbatim>\<open>reportEvent\<close>: the event is posted to the usage-event sink when both
  environment variables are set and not empty; otherwise the function only warns on the
  console. An effect \<^const>\<open>ReportEvent\<close> is a call of this function.
\<close>

record Env =
  EVENT_PING_URL :: "string option"
  EVENT_PING_PROJECT_ID :: "string option"

record EventPing =
  ping_to :: string
  website :: "string option"
  url :: BotCommand

definition reportEvent :: "Env \<Rightarrow> BotCommand \<Rightarrow> EventPing option" where
  "reportEvent env eventName =
     (if \<not> (truthy_string (EVENT_PING_URL env) \<and> truthy_string (EVENT_PING_PROJECT_ID env))
      then None
      else Some \<lparr>ping_to = the (EVENT_PING_URL env), website = EVENT_PING_PROJECT_ID env,
                  url = eventName\<rparr>)"

fun posted :: "Env \<Rightarrow> Effect list \<Rightarrow> EventPing list" where
  \<comment> \<open>the events that the calls of \<^const>\<open>reportEvent\<close> in a run post\<close>
  "posted env [] = []"
| "posted env (ReportEvent e # es) =
     (case reportEvent env e of None \<Rightarrow> posted env es | Some p \<Rightarrow> p # posted env es)"
| "posted env (_ # es) = posted env es"

section \<open>src/unnamed/part_000, first file (lines 1 to 318)\<close>

text \<open>
  An earlier version of the same handler: no \<^verbatim>\<open>/info\<close> and no \<^verbatim>\<open>/installation_id\<close>, a
  message passes the guard of line 66 whether it has a text or not, and a wrapped search
  error is always thrown. Its \<^verbatim>\<open>KvValue\<close> declares four of the six variants; the
  comparisons on \<^verbatim>\<open>status\<close> are modelled on all six, as they run on whatever the store holds.
\<close>

definition sendTgMessage_part1 :: "int option \<Rightarrow> string \<Rightarrow> Response" where
  \<comment> \<open>lines 226 to 239\<close>
  "sendTgMessage_part1 tg txt =
     Json \<lparr>SendMessage.chat_id = tg, parse_mode = None, disable_web_page_preview = None,
           link_preview_is_disabled = None, reply_text = txt\<rparr>"

definition or_empty :: "string option \<Rightarrow> string" where
  \<comment> \<open>\<^verbatim>\<open>message.text ?? ""\<close>\<close>
  "or_empty x = (case x of None \<Rightarrow> [] | Some s \<Rightarrow> s)"

definition on_message_part1 ::
  "Provider \<Rightarrow> KvValue \<Rightarrow> int \<Rightarrow> string option \<Rightarrow> Effect list \<times> (JsError + Response)" where
  \<comment> \<open>lines 68 to 222\<close>
  "on_message_part1 P kvValue c t =
    (if t = Some ''/start'' then
       ((if status kvValue = ''logged_out'' then [ReportEvent Start] else []),
        Inr (sendTgMessage_part1 (Some c) onboarding_text))
     else if t = Some ''/logout'' then
       ([KvDelete c, ReportEvent Logout],
        Inr (sendTgMessage_part1 (Some c) logout_confirmation))
     else if t = Some ''/login'' then
       (if status kvValue = ''logged_in'' then
          ([], Inr (sendTgMessage_part1 (Some c) already_logged_in))
        else
          ([KvSet c AwaitingPhoneNo],
           Inr (sendTgMessage_part1 (Some c) phone_number_prompt)))
     else if status kvValue = ''awaiting_phone_no'' then
       (case t of
          None \<Rightarrow> ([], Inr (sendTgMessage_part1 (Some c) phone_number_format_error))
        | Some phone \<Rightarrow>
            if \<not> startsWith phone ''+'' then
              ([], Inr (sendTgMessage_part1 (Some c) phone_number_format_error))
            else
              (case login P phone of
                 Inl err \<Rightarrow> ([CallLogin phone], Inl err)
               | Inr responseBody \<Rightarrow>
                   if LoginResponse.status responseBody = 6
                      \<or> LoginResponse.status responseBody = 5 then
                     ([CallLogin phone],
                      Inr (sendTgMessage_part1 (Some c) attempts_exceeded_short))
                   else if \<not> (LoginResponse.status responseBody = 1
                                \<or> LoginResponse.status responseBody = 9
                                \<or> LoginResponse.message responseBody = ''Sent'') then
                     ([CallLogin phone],
                      Inr (sendTgMessage_part1 (Some c) (LoginResponse.message responseBody)))
                   else
                     ([CallLogin phone, KvSet c (AwaitingOtp phone responseBody)],
                      Inr (sendTgMessage_part1 (Some c) otp_prompt))))
     else if status kvValue = ''awaiting_otp'' then
       (let otp = or_empty t;
            call = CallVerifyOtp (phoneNumber kvValue) (loginResponse kvValue) otp in
        case verifyOtp P (phoneNumber kvValue) (loginResponse kvValue) otp of
          Inl err \<Rightarrow> ([call], Inl err)
        | Inr otpResponse \<Rightarrow>
            if suspended otpResponse = Some True then
              ([call], Inr (sendTgMessage_part1 (Some c) account_suspended))
            else if OtpResponse.status otpResponse = 11 then
              ([call], Inr (sendTgMessage_part1 (Some c) invalid_otp))
            else if OtpResponse.status otpResponse = 7 then
              ([call], Inr (sendTgMessage_part1 (Some c) retries_exceeded))
            else if \<not> truthy_string (OtpResponse.installationId otpResponse) then
              ([call], Inr (sendTgMessage_part1 (Some c) (otp_failure_text otpResponse)))
            else
              ([call,
                KvSet c (LoggedIn (the (OtpResponse.installationId otpResponse))
                                  (parsedCountryCode (loginResponse kvValue))),
                ReportEvent Login],
               Inr (sendTgMessage_part1 (Some c) login_success)))
     else if status kvValue \<noteq> ''logged_in'' then
       ([], Inr (sendTgMessage_part1 (Some c) login_first))
     else
       (let searchData = \<lparr>number = or_empty t, countryCode = KvValue.countryCode kvValue,
                           installationId = KvValue.installationId kvValue\<rparr> in
        case search P searchData of
          Inl err \<Rightarrow> ([CallSearch searchData], Inl err)
        | Inr (WrappedError error) \<Rightarrow> ([CallSearch searchData], Inl error)
        | Inr (Found n) \<Rightarrow>
            ([CallSearch searchData, ReportEvent Search],
             Inr (sendTgMessage_part1 (Some c) n))))"

definition webhook_handler_part1 :: "Provider \<Rightarrow> World \<Rightarrow> Request \<Rightarrow> Outcome" where
  \<comment> \<open>lines 47 to 223\<close>
  "webhook_handler_part1 P w request =
    (if http_method request \<noteq> ''POST'' then
       \<lparr>effects = [], tgChatId_after = tgChatId w, result = Inr Status404\<rparr>
     else
       let u = (case json request of
                  None \<Rightarrow> \<lparr>Update.message = None, my_chat_member = None\<rparr>
                | Some u \<Rightarrow> u)
       in
       case kicked_chat u of
         Some k \<Rightarrow>
           \<lparr>effects = [KvDelete k, ReportEvent Stop],
            tgChatId_after = tgChatId w, result = Inr EmptyResponse\<rparr>
       | None \<Rightarrow>
           (case Update.message u of
              None \<Rightarrow>
                \<lparr>effects = [], tgChatId_after = tgChatId w, result = Inr EmptyResponse\<rparr>
            | Some m \<Rightarrow>
                let c = Message.chat_id m;
                    kvValue = loaded w c;
                    (effs, res) = on_message_part1 P kvValue c (message_text m)
                in \<lparr>effects = SendChatAction c # effs, tgChatId_after = Some c,
                    result = res\<rparr>))"

section \<open>src/unnamed/part_000, second file (lines 319 to 806)\<close>

text \<open>
  A later version: the branches are ordered differently, the country code is checked for
  its length, and the reply switches link previews off with \<^verbatim>\<open>link_preview_options\<close>.
\<close>

definition sendTgMessage_part2 :: "int option \<Rightarrow> string \<Rightarrow> bool \<Rightarrow> Response" where
  \<comment> \<open>lines 726 to 743\<close>
  "sendTgMessage_part2 tg txt markdownFormatted =
     Json \<lparr>SendMessage.chat_id = tg,
           parse_mode = (if markdownFormatted then Some ''MarkdownV2'' else None),
           disable_web_page_preview = None,
           link_preview_is_disabled = Some True,
           reply_text = txt\<rparr>"

definition on_text_part2 ::
  "Provider \<Rightarrow> KvValue \<Rightarrow> int \<Rightarrow> string \<Rightarrow> Effect list \<times> (JsError + Response)" where
  \<comment> \<open>lines 433 to 716\<close>
  "on_text_part2 P kvValue c t =
    (if t = ''/start'' then
       ((if status kvValue = ''logged_out'' then [ReportEvent Start] else []),
        Inr (sendTgMessage_part2 (Some c) onboarding_text_non_eu False))
     else if t = ''/info'' then
       ([], Inr (sendTgMessage_part2 (Some c) (info_text kvValue) True))
     else if t = ''/login'' then
       (if status kvValue = ''logged_in'' then
          ([], Inr (sendTgMessage_part2 (Some c) already_logged_in False))
        else
          ([KvSet c AwaitingPhoneNo],
           Inr (sendTgMessage_part2 (Some c) phone_number_prompt_non_eu False)))
     else if status kvValue = ''awaiting_phone_no'' \<and> \<not> startsWith t ''/'' then
       (if \<not> startsWith t ''+'' then
          ([], Inr (sendTgMessage_part2 (Some c) phone_number_format_error False))
        else
          (case login P t of
             Inl err \<Rightarrow> ([CallLogin t], Inl err)
           | Inr responseBody \<Rightarrow>
               if LoginResponse.status responseBody = 6 \<or> LoginResponse.status responseBody = 5 then
                 ([CallLogin t], Inr (sendTgMessage_part2 (Some c) attempts_exceeded False))
               else if \<not> (LoginResponse.status responseBody = 1
                            \<or> LoginResponse.status responseBody = 9
                            \<or> LoginResponse.message responseBody = ''Sent'') then
                 ([CallLogin t],
                  Inr (sendTgMessage_part2 (Some c) (LoginResponse.message responseBody) False))
               else
                 ([CallLogin t, KvSet c (AwaitingOtp t responseBody)],
                  Inr (sendTgMessage_part2 (Some c) otp_prompt False))))
     else if status kvValue = ''awaiting_otp'' \<and> \<not> startsWith t ''/'' then
       (let call = CallVerifyOtp (phoneNumber kvValue) (loginResponse kvValue) t in
        case verifyOtp P (phoneNumber kvValue) (loginResponse kvValue) t of
          Inl err \<Rightarrow> ([call], Inl err)
        | Inr otpResponse \<Rightarrow>
            if suspended otpResponse = Some True then
              ([call], Inr (sendTgMessage_part2 (Some c) account_suspended False))
            else if OtpResponse.status otpResponse = 11 then
              ([call], Inr (sendTgMessage_part2 (Some c) invalid_otp False))
            else if OtpResponse.status otpResponse = 7 then
              ([call], Inr (sendTgMessage_part2 (Some c) retries_exceeded False))
            else if \<not> truthy_string (OtpResponse.installationId otpResponse) then
              ([call], Inr (sendTgMessage_part2 (Some c) (otp_failure_text otpResponse) False))
            else
              ([call,
                KvSet c (LoggedIn (the (OtpResponse.installationId otpResponse))
                                  (parsedCountryCode (loginResponse kvValue))),
                ReportEvent Login],
               Inr (sendTgMessage_part2 (Some c) login_success False)))
     else if t = ''/installation_id'' then
       (if status kvValue = ''logged_in'' then
          ([], Inr (sendTgMessage_part2 (Some c) already_logged_in_installation_id False))
        else
          ([KvSet c AwaitingInstallationId],
           Inr (sendTgMessage_part2 (Some c) installation_id_prompt True)))
     else if status kvValue = ''awaiting_installation_id'' \<and> \<not> startsWith t ''/'' then
       ([KvSet c (AwaitingCountryCode t), ReportEvent InstallationId],
        Inr (sendTgMessage_part2 (Some c) country_code_prompt True))
     else if status kvValue = ''awaiting_country_code'' \<and> \<not> startsWith t ''/'' then
       (if length t \<noteq> 2 then
          ([], Inr (sendTgMessage_part2 (Some c) country_code_format_error False))
        else
          ([KvSet c (LoggedIn (KvValue.installationId kvValue) t)],
           Inr (sendTgMessage_part2 (Some c) login_success False)))
     else if t = ''/logout'' then
       ([KvDelete c, ReportEvent Logout],
        Inr (sendTgMessage_part2 (Some c) logout_confirmation False))
     else if status kvValue \<noteq> ''logged_in'' then
       ([], Inr (sendTgMessage_part2 (Some c) login_first False))
     else
       (let searchData = \<lparr>number = t, countryCode = KvValue.countryCode kvValue,
                           installationId = KvValue.installationId kvValue\<rparr> in
        case search P searchData of
          Inl err \<Rightarrow> ([CallSearch searchData], Inl err)
        | Inr (WrappedError error) \<Rightarrow>
            if account_error_status error then
              ([CallSearch searchData],
               Inr (sendTgMessage_part2 (Some c) (account_error (apiMessage error)) True))
            else ([CallSearch searchData], Inl error)
        | Inr (Found n) \<Rightarrow>
            ([CallSearch searchData, ReportEvent Search],
             Inr (sendTgMessage_part2 (Some c) n False))))"

definition webhook_handler_part2 :: "Provider \<Rightarrow> World \<Rightarrow> Request \<Rightarrow> Outcome" where
  \<comment> \<open>lines 413 to 717\<close>
  "webhook_handler_part2 P w request =
    (if http_method request \<noteq> ''POST'' then
       \<lparr>effects = [], tgChatId_after = tgChatId w, result = Inr Status404\<rparr>
     else
       let u = (case json request of
                  None \<Rightarrow> \<lparr>Update.message = None, my_chat_member = None\<rparr>
                | Some u \<Rightarrow> u)
       in
       case kicked_chat u of
         Some k \<Rightarrow>
           \<lparr>effects = [KvDelete k, ReportEvent Stop],
            tgChatId_after = tgChatId w, result = Inr EmptyResponse\<rparr>
       | None \<Rightarrow>
           (case truthy_text u of
              None \<Rightarrow>
                \<lparr>effects = [], tgChatId_after = tgChatId w, result = Inr EmptyResponse\<rparr>
            | Some (c, t) \<Rightarrow>
                let kvValue = loaded w c;
                    (effs, res) = on_text_part2 P kvValue c t
                in \<lparr>effects = SendChatAction c # effs, tgChatId_after = Some c,
                    result = res\<rparr>))"

section \<open>Inbound updates\<close>

definition text_message :: "int \<Rightarrow> string \<Rightarrow> Request" where
  \<comment> \<open>the webhook call for a message with text \<open>t\<close> in chat \<open>c\<close>\<close>
  "text_message c t =
     \<lparr>http_method = ''POST'',
      json = Some \<lparr>Update.message = Some \<lparr>Message.chat_id = c, message_text = Some t\<rparr>,
                   my_chat_member = None\<rparr>\<rparr>"

definition member_update :: "int \<Rightarrow> string \<Rightarrow> Request" where
  \<comment> \<open>the webhook call for a change of the bot's membership in chat \<open>c\<close> to status \<open>s\<close>\<close>
  "member_update c s =
     \<lparr>http_method = ''POST'',
      json = Some \<lparr>Update.message = None,
                   my_chat_member = Some \<lparr>ChatMemberUpdated.chat_id = c,
                                           new_chat_member_status = s\<rparr>\<rparr>\<rparr>"

section \<open>Observations on a run\<close>

text \<open>
  What a run does to the session of its chat, with the chat left out: a write of a value or a
  delete, in order. The empty list is "no change".
\<close>

datatype SessionChange = Write KvValue | Delete

fun session_change :: "Effect list \<Rightarrow> SessionChange list" where
  "session_change [] = []"
| "session_change (KvSet c v # es) = Write v # session_change es"
| "session_change (KvDelete c # es) = Delete # session_change es"
| "session_change (e # es) = session_change es"

fun without_chat :: "JsError + Response \<Rightarrow> JsError + Response" where
  \<comment> \<open>the response with the addressee taken out: the reply text and its formatting remain\<close>
  "without_chat (Inr (Json m)) = Inr (Json (m\<lparr>SendMessage.chat_id := None\<rparr>))"
| "without_chat r = r"

fun same_answer :: "Provider \<Rightarrow> Provider \<Rightarrow> Effect \<Rightarrow> bool" where
  \<comment> \<open>two providers answer a call alike; every other effect is no call\<close>
  "same_answer P Q (CallLogin p) = (login P p = login Q p)"
| "same_answer P Q (CallVerifyOtp p l otp) = (verifyOtp P p l otp = verifyOtp Q p l otp)"
| "same_answer P Q (CallSearch d) = (search P d = search Q d)"
| "same_answer P Q _ = True"

definition reaches_search :: "string \<Rightarrow> bool" where
  \<comment> \<open>a text that passes the guard of line 73 and is none of the five texts that
     src/index.ts answers in state \<^verbatim>\<open>logged_in\<close> without a search\<close>
  "reaches_search t \<longleftrightarrow>
     t \<noteq> [] \<and> t \<noteq> ''/start'' \<and> t \<noteq> ''/info'' \<and> t \<noteq> ''/installation_id''
     \<and> t \<noteq> ''/logout'' \<and> t \<noteq> ''/login''"

section \<open>Sample inputs\<close>

definition login_response0 :: LoginResponse where
  "login_response0 = \<lparr>LoginResponse.status = 1, message = ''Sent'', opaqueToken = ''T'',
                       parsedCountryCode = ''IN''\<rparr>"

definition provider0 :: Provider where
  \<comment> \<open>a provider that accepts every number, every OTP and finds every number\<close>
  "provider0 =
     \<lparr>login = (\<lambda>p. Inr login_response0),
      verifyOtp = (\<lambda>p l otp. Inr \<lparr>OtpResponse.status = 2, suspended = Some False,
                                      installationId = Some ''a1i0X'', message = None\<rparr>),
      search = (\<lambda>d. Inr (Found ''Jane Doe''))\<rparr>"

definition error0 :: "int option \<Rightarrow> JsError" where
  "error0 s = \<lparr>name = ''AxiosError'', message = ''Request failed'',
               responseData = Some \<lparr>ErrorData.status = s, message = Some ''Unauthorized''\<rparr>\<rparr>"

definition failing_provider :: "JsError \<Rightarrow> Provider" where
  \<comment> \<open>as \<^const>\<open>provider0\<close>, but every search wraps the given error\<close>
  "failing_provider e = provider0\<lparr>search := (\<lambda>d. Inr (WrappedError e))\<rparr>"

definition world0 :: "KvValue option \<Rightarrow> World" where
  \<comment> \<open>a store whose only record, if any, is that of chat 7\<close>
  "world0 v = \<lparr>kv = (\<lambda>c. if c = 7 then v else None), tgChatId = None\<rparr>"

definition world1 :: "KvValue \<Rightarrow> World" where
  \<comment> \<open>another store: the record is that of chat 9, chat 7 is in state
     \<^verbatim>\<open>logged_in\<close>, and an earlier request has left its chat in \<^verbatim>\<open>tgChatId\<close>\<close>
  "world1 v = \<lparr>kv = (\<lambda>c. if c = 9 then Some v
                          else if c = 7 then Some (LoggedIn ''zzz'' ''US'') else None),
               tgChatId = Some 3\<rparr>"

section \<open>Reduction lemmas\<close>

lemma startsWith_Cons [simp]: "startsWith (x # xs) [y] \<longleftrightarrow> x = y"
  by (simp add: startsWith_def)

lemma startsWith_Nil [simp]: "\<not> startsWith [] [y]"
  by (simp add: startsWith_def)

lemma startsWith_slash: "startsWith t ''/'' \<longleftrightarrow> (\<exists>r. t = CHR ''/'' # r)"
  by (cases t) auto

lemma startsWith_plus: "startsWith t ''+'' \<longleftrightarrow> (\<exists>r. t = CHR ''+'' # r)"
  by (cases t) auto

lemma status_logged_out: "status v = ''logged_out'' \<longleftrightarrow> v = LoggedOut"
  by (cases v) simp_all

subsection \<open>From the request to the dispatch on the text\<close>

lemma handler_text:
  "t \<noteq> [] \<Longrightarrow> webhook_handler P w (text_message c t) =
     \<lparr>effects = SendChatAction c # fst (on_text P (loaded w c) c t),
      tgChatId_after = Some c,
      result = snd (on_text P (loaded w c) c t)\<rparr>"
  by (simp add: webhook_handler_def text_message_def kicked_chat_def truthy_text_def Let_def
        split: prod.splits)

lemma handler_text_part1:
  "webhook_handler_part1 P w (text_message c t) =
     \<lparr>effects = SendChatAction c # fst (on_message_part1 P (loaded w c) c (Some t)),
      tgChatId_after = Some c,
      result = snd (on_message_part1 P (loaded w c) c (Some t))\<rparr>"
  by (simp add: webhook_handler_part1_def text_message_def kicked_chat_def Let_def
        split: prod.splits)

lemma handler_text_part2:
  "t \<noteq> [] \<Longrightarrow> webhook_handler_part2 P w (text_message c t) =
     \<lparr>effects = SendChatAction c # fst (on_text_part2 P (loaded w c) c t),
      tgChatId_after = Some c,
      result = snd (on_text_part2 P (loaded w c) c t)\<rparr>"
  by (simp add: webhook_handler_part2_def text_message_def kicked_chat_def truthy_text_def Let_def
        split: prod.splits)

subsection \<open>The branches of src/index.ts, one state at a time\<close>

lemma on_text_slash:
  assumes "startsWith t ''/''" and "status v \<noteq> ''logged_in''"
  shows "on_text P v c t =
    (if t = ''/start'' then
       ((if status v = ''logged_out'' then [ReportEvent Start] else []),
        Inr (sendTgMessage (Some c) onboarding_text False))
     else if t = ''/info'' then
       ([], Inr (sendTgMessage (Some c) (info_text v) True))
     else if t = ''/installation_id'' then
       ([KvSet c AwaitingInstallationId],
        Inr (sendTgMessage (Some c) installation_id_prompt True))
     else if t = ''/logout'' then
       ([KvDelete c, ReportEvent Logout],
        Inr (sendTgMessage (Some c) logout_confirmation False))
     else if t = ''/login'' then
       ([KvSet c AwaitingPhoneNo],
        Inr (sendTgMessage (Some c) phone_number_prompt False))
     else ([], Inr (sendTgMessage (Some c) login_first False)))"
  using assms by (simp add: on_text_def)

lemma slash_text_leaves_flow:
  \<comment> \<open>inside a flow a text with a leading slash that is no command the handler compares
     with is answered like free text outside a flow\<close>
  assumes "startsWith t ''/''" and "status v \<noteq> ''logged_in''"
    and "t \<noteq> ''/start''" and "t \<noteq> ''/info''" and "t \<noteq> ''/installation_id''"
    and "t \<noteq> ''/logout''" and "t \<noteq> ''/login''"
  shows "on_text P v c t = ([], Inr (sendTgMessage (Some c) login_first False))"
  using assms by (simp add: on_text_slash)

lemma on_text_phone:
  assumes "\<not> startsWith t ''/''"
  shows "on_text P AwaitingPhoneNo c t =
       (if \<not> startsWith t ''+'' then
          ([], Inr (sendTgMessage (Some c) phone_number_format_error False))
        else
          (case login P t of
             Inl err \<Rightarrow> ([CallLogin t], Inl err)
           | Inr responseBody \<Rightarrow>
               if LoginResponse.status responseBody = 6 \<or> LoginResponse.status responseBody = 5 then
                 ([CallLogin t], Inr (sendTgMessage (Some c) attempts_exceeded False))
               else if \<not> (LoginResponse.status responseBody = 1
                            \<or> LoginResponse.status responseBody = 9
                            \<or> LoginResponse.message responseBody = ''Sent'') then
                 ([CallLogin t],
                  Inr (sendTgMessage (Some c) (LoginResponse.message responseBody) False))
               else
                 ([CallLogin t, KvSet c (AwaitingOtp t responseBody)],
                  Inr (sendTgMessage (Some c) otp_prompt False))))"
  using assms by (auto simp add: on_text_def startsWith_slash)

lemma on_text_otp:
  assumes "\<not> startsWith t ''/''"
  shows "on_text P (AwaitingOtp ph lr) c t =
       (case verifyOtp P ph lr t of
          Inl err \<Rightarrow> ([CallVerifyOtp ph lr t], Inl err)
        | Inr otpResponse \<Rightarrow>
            if suspended otpResponse = Some True then
              ([CallVerifyOtp ph lr t], Inr (sendTgMessage (Some c) account_suspended False))
            else if OtpResponse.status otpResponse = 11 then
              ([CallVerifyOtp ph lr t], Inr (sendTgMessage (Some c) invalid_otp False))
            else if OtpResponse.status otpResponse = 7 then
              ([CallVerifyOtp ph lr t], Inr (sendTgMessage (Some c) retries_exceeded False))
            else if \<not> truthy_string (OtpResponse.installationId otpResponse) then
              ([CallVerifyOtp ph lr t],
               Inr (sendTgMessage (Some c) (otp_failure_text otpResponse) False))
            else
              ([CallVerifyOtp ph lr t,
                KvSet c (LoggedIn (the (OtpResponse.installationId otpResponse))
                                  (parsedCountryCode lr)),
                ReportEvent Login],
               Inr (sendTgMessage (Some c) login_success False)))"
  using assms by (auto simp add: on_text_def Let_def startsWith_slash split: sum.splits)

lemma on_text_country_code:
  "\<not> startsWith t ''/'' \<Longrightarrow>
   on_text P (AwaitingCountryCode i) c t =
     ([KvSet c (LoggedIn i t)], Inr (sendTgMessage (Some c) login_success False))"
  by (auto simp add: on_text_def startsWith_slash)

lemma on_text_part2_country_code:
  "\<not> startsWith t ''/'' \<Longrightarrow>
   on_text_part2 P (AwaitingCountryCode i) c t =
     (if length t \<noteq> 2 then
        ([], Inr (sendTgMessage_part2 (Some c) country_code_format_error False))
      else ([KvSet c (LoggedIn i t)], Inr (sendTgMessage_part2 (Some c) login_success False)))"
  by (auto simp add: on_text_part2_def startsWith_slash)

lemma on_text_logged_in:
  assumes "t \<noteq> ''/start''" and "t \<noteq> ''/info''" and "t \<noteq> ''/installation_id''"
    and "t \<noteq> ''/logout''" and "t \<noteq> ''/login''"
  shows "on_text P (LoggedIn i cc) c t =
     (case search P \<lparr>number = t, countryCode = cc, installationId = i\<rparr> of
          Inl err \<Rightarrow> ([CallSearch \<lparr>number = t, countryCode = cc, installationId = i\<rparr>], Inl err)
        | Inr (WrappedError error) \<Rightarrow>
            if account_error_status error then
              ([CallSearch \<lparr>number = t, countryCode = cc, installationId = i\<rparr>],
               Inr (sendTgMessage (Some c) (account_error (apiMessage error)) True))
            else ([CallSearch \<lparr>number = t, countryCode = cc, installationId = i\<rparr>], Inl error)
        | Inr (Found n) \<Rightarrow>
            ([CallSearch \<lparr>number = t, countryCode = cc, installationId = i\<rparr>, ReportEvent Search],
             Inr (sendTgMessage (Some c) n False)))"
  using assms by (simp add: on_text_def Let_def split: sum.splits SearchResult.splits)

lemma on_text_logged_in_command:
  assumes "t = ''/start'' \<or> t = ''/info'' \<or> t = ''/installation_id''
           \<or> t = ''/logout'' \<or> t = ''/login''"
  shows "on_text P (LoggedIn i cc) c t =
    (if t = ''/start'' then ([], Inr (sendTgMessage (Some c) onboarding_text False))
     else if t = ''/info'' then
       ([], Inr (sendTgMessage (Some c) (info_text (LoggedIn i cc)) True))
     else if t = ''/installation_id'' then
       ([], Inr (sendTgMessage (Some c) already_logged_in_installation_id False))
     else if t = ''/logout'' then
       ([KvDelete c, ReportEvent Logout],
        Inr (sendTgMessage (Some c) logout_confirmation False))
     else ([], Inr (sendTgMessage (Some c) already_logged_in False)))"
  using assms by (auto simp add: on_text_def)

subsection \<open>The commands\<close>

lemma on_text_start:
  "on_text P v c ''/start'' =
     ((if status v = ''logged_out'' then [ReportEvent Start] else []),
      Inr (sendTgMessage (Some c) onboarding_text False))"
  by (simp add: on_text_def)

lemma start_event_posted:
  \<comment> \<open>what the call of \<^const>\<open>reportEvent\<close> on \<^verbatim>\<open>/start\<close> posts\<close>
  "posted env (effects (webhook_handler P w (text_message c ''/start''))) =
     (if loaded w c = LoggedOut
         \<and> truthy_string (EVENT_PING_URL env) \<and> truthy_string (EVENT_PING_PROJECT_ID env)
      then [\<lparr>ping_to = the (EVENT_PING_URL env), website = EVENT_PING_PROJECT_ID env,
              url = Start\<rparr>]
      else [])"
  by (simp add: handler_text on_text_start status_logged_out reportEvent_def)

lemma on_text_login:
  "on_text P v c ''/login'' =
     (if status v = ''logged_in'' then
        ([], Inr (sendTgMessage (Some c) already_logged_in False))
      else ([KvSet c AwaitingPhoneNo], Inr (sendTgMessage (Some c) phone_number_prompt False)))"
  by (simp add: on_text_def)

lemma on_text_logout:
  "on_text P v c ''/logout'' =
     ([KvDelete c, ReportEvent Logout], Inr (sendTgMessage (Some c) logout_confirmation False))"
  by (simp add: on_text_def)

lemma on_message_part1_logout:
  "on_message_part1 P v c (Some ''/logout'') =
     ([KvDelete c, ReportEvent Logout], Inr (sendTgMessage_part1 (Some c) logout_confirmation))"
  by (simp add: on_message_part1_def)

lemma on_text_part2_logout:
  "on_text_part2 P v c ''/logout'' =
     ([KvDelete c, ReportEvent Logout],
      Inr (sendTgMessage_part2 (Some c) logout_confirmation False))"
  by (simp add: on_text_part2_def)

section \<open>The claims\<close>

text \<open>
  In what follows a "message with text \<open>t\<close>" is the request \<^term>\<open>text_message c t\<close>. The
  handlers of src/index.ts and of the second file of part_000 answer a message whose text is
  empty like one without text (line 73: \<^verbatim>\<open>!message?.text\<close>), so a text is taken to be non-empty.
  Inside a flow the handlers tell a command from free text by the first character
  (\<^verbatim>\<open>!message.text.startsWith("/")\<close>); "non-command text" is read in that sense.
\<close>

subsection \<open>C1: the country code\<close>

text \<open>
  C1, as stated: in state AwaitingCountryCode every non-command text is checked for being
  two characters long; if it is not, the reply is the format error and the state stays,
  otherwise the state becomes LoggedIn with the stored installation ID and this country code
  and the reply is the success message.

  This holds of the second file of part_000 (lines 649 to 672). It fails on src/index.ts
  (lines 175 to 190), which has no such check: the text \<open>USA\<close> is stored as the country
  code and the reply is the success message.
\<close>

theorem country_code_unvalidated_counterexample:
  "loaded (world0 (Some (AwaitingCountryCode ''a1i0X''))) 7 = AwaitingCountryCode ''a1i0X''
   \<and> \<not> startsWith ''USA'' ''/'' \<and> length ''USA'' \<noteq> 2
   \<and> kv_after (world0 (Some (AwaitingCountryCode ''a1i0X'')))
        (webhook_handler provider0 (world0 (Some (AwaitingCountryCode ''a1i0X'')))
           (text_message 7 ''USA'')) 7
      = Some (LoggedIn ''a1i0X'' ''USA'')
   \<and> kv_after (world0 (Some (AwaitingCountryCode ''a1i0X'')))
        (webhook_handler provider0 (world0 (Some (AwaitingCountryCode ''a1i0X'')))
           (text_message 7 ''USA'')) 7
      \<noteq> Some (AwaitingCountryCode ''a1i0X'')
   \<and> result (webhook_handler provider0 (world0 (Some (AwaitingCountryCode ''a1i0X'')))
        (text_message 7 ''USA''))
      = Inr (sendTgMessage (Some 7) login_success False)
   \<and> result (webhook_handler provider0 (world0 (Some (AwaitingCountryCode ''a1i0X'')))
        (text_message 7 ''USA''))
      \<noteq> Inr (sendTgMessage (Some 7) country_code_format_error False)"
  by (simp add: handler_text loaded_def world0_def on_text_country_code kv_after_def
        sendTgMessage_def login_success_def country_code_format_error_def)

text \<open>
  C1, amended: in state AwaitingCountryCode, for every non-empty text without a leading
  slash, the second file of part_000 replies with the format error and leaves the session
  alone when the text is not two characters long, and otherwise writes LoggedIn with the
  stored installation ID and the text as country code and replies with the success message;
  src/index.ts does the latter for every such text, whatever its length.
\<close>

theorem country_code_step:
  assumes "loaded w c = AwaitingCountryCode i" and "t \<noteq> []" and "\<not> startsWith t ''/''"
  shows "webhook_handler_part2 P w (text_message c t) =
           (if length t \<noteq> 2 then
              \<lparr>effects = [SendChatAction c], tgChatId_after = Some c,
               result = Inr (sendTgMessage_part2 (Some c) country_code_format_error False)\<rparr>
            else
              \<lparr>effects = [SendChatAction c, KvSet c (LoggedIn i t)], tgChatId_after = Some c,
               result = Inr (sendTgMessage_part2 (Some c) login_success False)\<rparr>)
         \<and> kv_after w (webhook_handler_part2 P w (text_message c t)) =
           (if length t \<noteq> 2 then kv w else (kv w)(c \<mapsto> LoggedIn i t))
         \<and> webhook_handler P w (text_message c t) =
              \<lparr>effects = [SendChatAction c, KvSet c (LoggedIn i t)], tgChatId_after = Some c,
               result = Inr (sendTgMessage (Some c) login_success False)\<rparr>
         \<and> kv_after w (webhook_handler P w (text_message c t)) = (kv w)(c \<mapsto> LoggedIn i t)"
  using assms
  by (simp add: handler_text handler_text_part2 on_text_country_code
        on_text_part2_country_code kv_after_def)

theorem country_code_step_witness:
  "webhook_handler_part2 provider0 (world0 (Some (AwaitingCountryCode ''a1i0X'')))
       (text_message 7 ''IN'')
     = \<lparr>effects = [SendChatAction 7, KvSet 7 (LoggedIn ''a1i0X'' ''IN'')],
        tgChatId_after = Some 7,
        result = Inr (sendTgMessage_part2 (Some 7) login_success False)\<rparr>
   \<and> webhook_handler_part2 provider0 (world0 (Some (AwaitingCountryCode ''a1i0X'')))
       (text_message 7 ''USA'')
     = \<lparr>effects = [SendChatAction 7], tgChatId_after = Some 7,
        result = Inr (sendTgMessage_part2 (Some 7) country_code_format_error False)\<rparr>
   \<and> webhook_handler provider0 (world0 (Some (AwaitingCountryCode ''a1i0X'')))
       (text_message 7 ''USA'')
     = \<lparr>effects = [SendChatAction 7, KvSet 7 (LoggedIn ''a1i0X'' ''USA'')],
        tgChatId_after = Some 7,
        result = Inr (sendTgMessage (Some 7) login_success False)\<rparr>"
  using country_code_step [of "world0 (Some (AwaitingCountryCode ''a1i0X''))" 7 "''a1i0X''"
          "''IN''" provider0]
        country_code_step [of "world0 (Some (AwaitingCountryCode ''a1i0X''))" 7 "''a1i0X''"
          "''USA''" provider0]
  by (simp add: world0_def loaded_def)

subsection \<open>C2: a verified OTP logs in\<close>

text \<open>
  C2: in state AwaitingOtp, for every non-command text for which the provider's verify
  response has no suspension flag, a status that is neither 11 nor 7 and a non-empty
  installationId, the stored session becomes LoggedIn with that installationId and with the
  parsedCountryCode of the stored login response, and the reply is the login-success
  message. (src/index.ts, lines 259 to 299.)
\<close>

theorem otp_success_logs_in:
  assumes "loaded w c = AwaitingOtp ph lr" and "t \<noteq> []" and "\<not> startsWith t ''/''"
    and "verifyOtp P ph lr t = Inr r"
    and "suspended r \<noteq> Some True"
    and "OtpResponse.status r \<noteq> 11" and "OtpResponse.status r \<noteq> 7"
    and "OtpResponse.installationId r = Some i" and "i \<noteq> []"
  shows "effects (webhook_handler P w (text_message c t)) =
           [SendChatAction c, CallVerifyOtp ph lr t,
            KvSet c (LoggedIn i (parsedCountryCode lr)), ReportEvent Login]
         \<and> kv_after w (webhook_handler P w (text_message c t)) c
             = Some (LoggedIn i (parsedCountryCode lr))
         \<and> result (webhook_handler P w (text_message c t))
             = Inr (sendTgMessage (Some c) login_success False)"
  using assms
  by (simp add: handler_text on_text_otp truthy_string_def kv_after_def)

theorem otp_success_logs_in_witness:
  "kv_after (world0 (Some (AwaitingOtp ''+15551234567'' login_response0)))
     (webhook_handler provider0 (world0 (Some (AwaitingOtp ''+15551234567'' login_response0)))
        (text_message 7 ''123456'')) 7
     = Some (LoggedIn ''a1i0X'' ''IN'')
   \<and> result (webhook_handler provider0
        (world0 (Some (AwaitingOtp ''+15551234567'' login_response0)))
        (text_message 7 ''123456''))
     = Inr (sendTgMessage (Some 7) login_success False)"
  using otp_success_logs_in [of "world0 (Some (AwaitingOtp ''+15551234567'' login_response0))" 7
          "''+15551234567''" login_response0 "''123456''" provider0
          "\<lparr>OtpResponse.status = 2, suspended = Some False,
            installationId = Some ''a1i0X'', message = None\<rparr>" "''a1i0X''"]
  by (simp add: world0_def loaded_def provider0_def login_response0_def)

subsection \<open>C3: logout\<close>

text \<open>
  C3: whatever the stored state, one of the six or none, a message whose text is
  \<^verbatim>\<open>/logout\<close> deletes the stored session, which is absent afterwards, and the reply is the
  logout confirmation. Stated for src/index.ts (lines 194 to 200) and for both files of
  part_000 (lines 102 to 108 and 676 to 682).
\<close>

theorem logout_deletes_session:
  "effects (webhook_handler P w (text_message c ''/logout''))
     = [SendChatAction c, KvDelete c, ReportEvent Logout]
   \<and> kv_after w (webhook_handler P w (text_message c ''/logout'')) c = None
   \<and> result (webhook_handler P w (text_message c ''/logout''))
     = Inr (sendTgMessage (Some c) logout_confirmation False)
   \<and> effects (webhook_handler_part1 P w (text_message c ''/logout''))
     = [SendChatAction c, KvDelete c, ReportEvent Logout]
   \<and> kv_after w (webhook_handler_part1 P w (text_message c ''/logout'')) c = None
   \<and> result (webhook_handler_part1 P w (text_message c ''/logout''))
     = Inr (sendTgMessage_part1 (Some c) logout_confirmation)
   \<and> effects (webhook_handler_part2 P w (text_message c ''/logout''))
     = [SendChatAction c, KvDelete c, ReportEvent Logout]
   \<and> kv_after w (webhook_handler_part2 P w (text_message c ''/logout'')) c = None
   \<and> result (webhook_handler_part2 P w (text_message c ''/logout''))
     = Inr (sendTgMessage_part2 (Some c) logout_confirmation False)"
  by (simp add: handler_text handler_text_part1 handler_text_part2
        on_text_logout on_message_part1_logout on_text_part2_logout kv_after_def)

subsection \<open>C4: a phone number without the plus sign\<close>

text \<open>
  C4: in state AwaitingPhoneNumber, for every non-command text that does not start with
  \<open>+\<close>, the stored session is neither written nor deleted, the provider is not called, and
  the reply is the phone-number format error. (src/index.ts, lines 220 to 231.)
\<close>

theorem phone_number_format_rejected:
  assumes "loaded w c = AwaitingPhoneNo" and "t \<noteq> []" and "\<not> startsWith t ''/''"
    and "\<not> startsWith t ''+''"
  shows "effects (webhook_handler P w (text_message c t)) = [SendChatAction c]
         \<and> filter is_kv_op (effects (webhook_handler P w (text_message c t))) = []
         \<and> filter is_provider_call (effects (webhook_handler P w (text_message c t))) = []
         \<and> kv_after w (webhook_handler P w (text_message c t)) = kv w
         \<and> result (webhook_handler P w (text_message c t))
             = Inr (sendTgMessage (Some c) phone_number_format_error False)"
  using assms
  by (simp add: handler_text on_text_phone kv_after_def)

theorem phone_number_format_rejected_witness:
  "effects (webhook_handler provider0 (world0 (Some AwaitingPhoneNo))
      (text_message 7 ''15551234567''))
     = [SendChatAction 7]
   \<and> result (webhook_handler provider0 (world0 (Some AwaitingPhoneNo))
      (text_message 7 ''15551234567''))
     = Inr (sendTgMessage (Some 7) phone_number_format_error False)"
  using phone_number_format_rejected [of "world0 (Some AwaitingPhoneNo)" 7 "''15551234567''"
          provider0]
  by (simp add: world0_def loaded_def)

subsection \<open>C5: login\<close>

text \<open>
  C5: a message whose text is \<^verbatim>\<open>/login\<close> writes the state AwaitingPhoneNumber and prompts
  for a phone number when the loaded state is not LoggedIn; when it is LoggedIn the reply is
  "already logged in" and the session is neither written nor deleted. (src/index.ts, lines
  204 to 218.)
\<close>

theorem login_command:
  "webhook_handler P w (text_message c ''/login'') =
     (if status (loaded w c) = ''logged_in'' then
        \<lparr>effects = [SendChatAction c], tgChatId_after = Some c,
         result = Inr (sendTgMessage (Some c) already_logged_in False)\<rparr>
      else
        \<lparr>effects = [SendChatAction c, KvSet c AwaitingPhoneNo], tgChatId_after = Some c,
         result = Inr (sendTgMessage (Some c) phone_number_prompt False)\<rparr>)
   \<and> kv_after w (webhook_handler P w (text_message c ''/login'')) =
     (if status (loaded w c) = ''logged_in'' then kv w else (kv w)(c \<mapsto> AwaitingPhoneNo))"
  by (simp add: handler_text on_text_login kv_after_def)

subsection \<open>C6: no record means logged out\<close>

lemma loaded_absent_as_logged_out:
  "kv w c = None \<Longrightarrow> loaded (w\<lparr>kv := (kv w)(c \<mapsto> LoggedOut)\<rparr>) c' = loaded w c'"
  by (simp add: loaded_def)

text \<open>
  C6: for a chat without a stored record the loaded state is LoggedOut (lines 102 to 104), and
  the handler of src/index.ts does on every request exactly what it does when the record
  \<^verbatim>\<open>{ status: "logged_out" }\<close> is stored for that chat. The store holds at most one value
  per chat, and every value carries exactly one of the six tags.
\<close>

theorem absent_is_logged_out:
  assumes "kv w c = None"
  shows "loaded w c = LoggedOut
         \<and> webhook_handler P w r = webhook_handler P (w\<lparr>kv := (kv w)(c \<mapsto> LoggedOut)\<rparr>) r
         \<and> length (filter (\<lambda>s. status v = s) all_statuses) = 1"
proof -
  have a: "loaded w c = LoggedOut"
    using assms by (simp add: loaded_def)
  have b: "webhook_handler P w r = webhook_handler P (w\<lparr>kv := (kv w)(c \<mapsto> LoggedOut)\<rparr>) r"
    by (simp add: webhook_handler_def Let_def loaded_absent_as_logged_out [OF assms]
          split: option.splits prod.splits)
  have c: "length (filter (\<lambda>s. status v = s) all_statuses) = 1"
    by (cases v) (simp_all add: all_statuses_def)
  from a b c show ?thesis by blast
qed

theorem absent_is_logged_out_witness:
  "loaded (world0 None) 7 = LoggedOut
   \<and> webhook_handler provider0 (world0 None) (text_message 7 ''/start'')
       = webhook_handler provider0 (world0 (Some LoggedOut)) (text_message 7 ''/start'')
   \<and> length (filter (\<lambda>s. status (LoggedIn ''a1i0X'' ''IN'') = s) all_statuses) = 1"
proof -
  have "(world0 None)\<lparr>kv := (kv (world0 None))(7 \<mapsto> LoggedOut)\<rparr> = world0 (Some LoggedOut)"
    by (auto simp add: world0_def)
  then show ?thesis
    using absent_is_logged_out [of "world0 None" 7 provider0 "text_message 7 ''/start''"
            "LoggedIn ''a1i0X'' ''IN''"]
    by (simp add: world0_def)
qed

subsection \<open>C7: a search that wraps an error\<close>

text \<open>
  C7: in state LoggedIn, when the result of the search wraps an error: if the status of the
  error's response data is 40101 or 42601, the reply is the account-error text, which points
  back to \<^verbatim>\<open>/login\<close>, and the stored session is unchanged; every other wrapped error is
  thrown by the handler. (src/index.ts, lines 313 to 331.) The texts that reach the search
  are those of \<^const>\<open>reaches_search\<close>.
\<close>

theorem search_error_handling:
  assumes "loaded w c = LoggedIn i cc" and "reaches_search t"
    and "search P \<lparr>number = t, countryCode = cc, installationId = i\<rparr> = Inr (WrappedError e)"
  shows "effects (webhook_handler P w (text_message c t))
           = [SendChatAction c, CallSearch \<lparr>number = t, countryCode = cc, installationId = i\<rparr>]
         \<and> kv_after w (webhook_handler P w (text_message c t)) = kv w
         \<and> result (webhook_handler P w (text_message c t))
           = (if account_error_status e
              then Inr (sendTgMessage (Some c) (account_error (apiMessage e)) True)
              else Inl e)"
proof -
  from assms(2) have n: "t \<noteq> ''/start''" "t \<noteq> ''/info''" "t \<noteq> ''/installation_id''"
      "t \<noteq> ''/logout''" "t \<noteq> ''/login''" "t \<noteq> []"
    by (simp_all add: reaches_search_def)
  show ?thesis
    using assms(1,3) n(6)
    by (simp add: handler_text on_text_logged_in [OF n(1-5)] kv_after_def)
qed

theorem search_error_handling_witness:
  "account_error_status (error0 (Some 40101)) \<and> \<not> account_error_status (error0 (Some 500))
   \<and> result (webhook_handler (failing_provider (error0 (Some 40101)))
        (world0 (Some (LoggedIn ''a1i0X'' ''IN''))) (text_message 7 ''+919999999999''))
     = Inr (sendTgMessage (Some 7) (account_error ''Unauthorized'') True)
   \<and> result (webhook_handler (failing_provider (error0 (Some 500)))
        (world0 (Some (LoggedIn ''a1i0X'' ''IN''))) (text_message 7 ''+919999999999''))
     = Inl (error0 (Some 500))"
  using search_error_handling [of "world0 (Some (LoggedIn ''a1i0X'' ''IN''))" 7 "''a1i0X''"
          "''IN''" "''+919999999999''" "failing_provider (error0 (Some 40101))"
          "error0 (Some 40101)"]
        search_error_handling [of "world0 (Some (LoggedIn ''a1i0X'' ''IN''))" 7 "''a1i0X''"
          "''IN''" "''+919999999999''" "failing_provider (error0 (Some 500))"
          "error0 (Some 500)"]
  by (simp add: world0_def loaded_def failing_provider_def provider0_def reaches_search_def
        account_error_status_def apiMessage_def error0_def)

subsection \<open>C8: the transition is determined by state, text and provider answers\<close>

text \<open>
  The handler is a function of the provider, the store, the variable \<^verbatim>\<open>tgChatId\<close> and the
  request. The lemmas below show that, of all this, only the loaded state, the text and the
  answers to the calls made reach the session and the reply.
\<close>

lemma without_chat_send [simp]:
  "without_chat (Inr (sendTgMessage (Some c) txt f)) = Inr (sendTgMessage None txt f)"
  by (simp add: sendTgMessage_def)

lemma det_provider_free:
  assumes "v = LoggedOut \<or> v = AwaitingInstallationId \<or> v = AwaitingCountryCode i"
  shows "session_change (fst (on_text P v c t)) = session_change (fst (on_text Q v c' t))
         \<and> without_chat (snd (on_text P v c t)) = without_chat (snd (on_text Q v c' t))"
  using assms by (auto simp add: on_text_def)

lemma det_AwaitingPhoneNo:
  assumes "list_all (same_answer P Q) (fst (on_text P AwaitingPhoneNo c t))"
  shows "session_change (fst (on_text P AwaitingPhoneNo c t))
           = session_change (fst (on_text Q AwaitingPhoneNo c' t))
         \<and> without_chat (snd (on_text P AwaitingPhoneNo c t))
           = without_chat (snd (on_text Q AwaitingPhoneNo c' t))"
proof (cases "startsWith t ''/''")
  case True
  then show ?thesis
    by (simp add: on_text_slash)
next
  case slash: False
  show ?thesis
  proof (cases "startsWith t ''+''")
    case True
    with assms slash have "login P t = login Q t"
      by (simp add: on_text_phone split: sum.splits if_splits)
    with slash True show ?thesis
      by (simp add: on_text_phone split: sum.splits)
  next
    case False
    with slash show ?thesis
      by (simp add: on_text_phone)
  qed
qed

lemma det_AwaitingOtp:
  assumes "list_all (same_answer P Q) (fst (on_text P (AwaitingOtp ph lr) c t))"
  shows "session_change (fst (on_text P (AwaitingOtp ph lr) c t))
           = session_change (fst (on_text Q (AwaitingOtp ph lr) c' t))
         \<and> without_chat (snd (on_text P (AwaitingOtp ph lr) c t))
           = without_chat (snd (on_text Q (AwaitingOtp ph lr) c' t))"
proof (cases "startsWith t ''/''")
  case True
  then show ?thesis
    by (simp add: on_text_slash)
next
  case False
  with assms have "verifyOtp P ph lr t = verifyOtp Q ph lr t"
    by (simp add: on_text_otp split: sum.splits if_splits)
  with False show ?thesis
    by (simp add: on_text_otp split: sum.splits)
qed

lemma det_LoggedIn:
  assumes "list_all (same_answer P Q) (fst (on_text P (LoggedIn i cc) c t))"
  shows "session_change (fst (on_text P (LoggedIn i cc) c t))
           = session_change (fst (on_text Q (LoggedIn i cc) c' t))
         \<and> without_chat (snd (on_text P (LoggedIn i cc) c t))
           = without_chat (snd (on_text Q (LoggedIn i cc) c' t))"
proof (cases "t = ''/start'' \<or> t = ''/info'' \<or> t = ''/installation_id''
           \<or> t = ''/logout'' \<or> t = ''/login''")
  case True
  show ?thesis
    unfolding on_text_logged_in_command [OF True] by simp
next
  case False
  then have n: "t \<noteq> ''/start''" "t \<noteq> ''/info''" "t \<noteq> ''/installation_id''"
    "t \<noteq> ''/logout''" "t \<noteq> ''/login''"
    by simp_all
  from assms have "search P \<lparr>number = t, countryCode = cc, installationId = i\<rparr>
      = search Q \<lparr>number = t, countryCode = cc, installationId = i\<rparr>"
    unfolding on_text_logged_in [OF n]
    by (simp split: sum.splits SearchResult.splits if_splits)
  then show ?thesis
    unfolding on_text_logged_in [OF n]
    by (simp split: sum.splits SearchResult.splits)
qed

lemma on_text_deterministic:
  assumes "list_all (same_answer P Q) (fst (on_text P v c t))"
  shows "session_change (fst (on_text P v c t)) = session_change (fst (on_text Q v c' t))
         \<and> without_chat (snd (on_text P v c t)) = without_chat (snd (on_text Q v c' t))"
proof (cases v)
  case AwaitingPhoneNo
  with assms show ?thesis by (simp add: det_AwaitingPhoneNo)
next
  case (AwaitingOtp ph lr)
  with assms show ?thesis by (simp add: det_AwaitingOtp)
next
  case AwaitingInstallationId
  then show ?thesis by (simp add: det_provider_free)
next
  case (AwaitingCountryCode i)
  then show ?thesis by (simp add: det_provider_free)
next
  case (LoggedIn i cc)
  with assms show ?thesis by (simp add: det_LoggedIn)
next
  case LoggedOut
  then show ?thesis by (simp add: det_provider_free)
qed

text \<open>
  C8: take two runs of the handler of src/index.ts on a message with the same text, in
  chats whose loaded states are the same, with providers that answer alike the calls the
  first run makes. Whatever else differs (the chats, the other records of the store, the
  variable \<^verbatim>\<open>tgChatId\<close>, the providers elsewhere), both runs change the session alike (the same
  write, a delete, or nothing) and both throw the same error or send the same reply.
\<close>

theorem transition_deterministic:
  assumes "loaded w1 c1 = loaded w2 c2"
    and "list_all (same_answer P1 P2) (effects (webhook_handler P1 w1 (text_message c1 t)))"
  shows "session_change (effects (webhook_handler P1 w1 (text_message c1 t)))
           = session_change (effects (webhook_handler P2 w2 (text_message c2 t)))
         \<and> without_chat (result (webhook_handler P1 w1 (text_message c1 t)))
           = without_chat (result (webhook_handler P2 w2 (text_message c2 t)))"
proof (cases "t = []")
  case True
  then show ?thesis
    by (simp add: webhook_handler_def text_message_def kicked_chat_def truthy_text_def)
next
  case False
  with assms(2) have "list_all (same_answer P1 P2) (fst (on_text P1 (loaded w1 c1) c1 t))"
    by (simp add: handler_text)
  from on_text_deterministic [OF this, of c2] show ?thesis
    using False assms(1) by (simp add: handler_text)
qed

theorem transition_deterministic_witness:
  "session_change (effects (webhook_handler provider0 (world0 (Some AwaitingPhoneNo))
       (text_message 7 ''+15551234567'')))
     = [Write (AwaitingOtp ''+15551234567'' login_response0)]
   \<and> session_change (effects (webhook_handler (failing_provider (error0 None))
       (world1 AwaitingPhoneNo) (text_message 9 ''+15551234567'')))
     = [Write (AwaitingOtp ''+15551234567'' login_response0)]
   \<and> without_chat (result (webhook_handler (failing_provider (error0 None))
       (world1 AwaitingPhoneNo) (text_message 9 ''+15551234567'')))
     = Inr (sendTgMessage None otp_prompt False)"
proof -
  have l: "loaded (world0 (Some AwaitingPhoneNo)) 7 = loaded (world1 AwaitingPhoneNo) 9"
    by (simp add: loaded_def world0_def world1_def)
  have r: "webhook_handler provider0 (world0 (Some AwaitingPhoneNo))
             (text_message 7 ''+15551234567'')
           = \<lparr>effects = [SendChatAction 7, CallLogin ''+15551234567'',
                          KvSet 7 (AwaitingOtp ''+15551234567'' login_response0)],
              tgChatId_after = Some 7,
              result = Inr (sendTgMessage (Some 7) otp_prompt False)\<rparr>"
    by (simp add: handler_text loaded_def world0_def on_text_phone provider0_def
          login_response0_def)
  have a: "list_all (same_answer provider0 (failing_provider (error0 None)))
             (effects (webhook_handler provider0 (world0 (Some AwaitingPhoneNo))
                (text_message 7 ''+15551234567'')))"
    unfolding r by (simp add: failing_provider_def)
  from transition_deterministic [OF l a] show ?thesis
    unfolding r by simp
qed

subsection \<open>C9: start\<close>

text \<open>
  C9: from every state a message whose text is \<^verbatim>\<open>/start\<close> neither writes nor deletes the
  session and is answered with the onboarding text; \<^verbatim>\<open>reportEvent("/start")\<close> is called if
  and only if the loaded state is LoggedOut. (src/index.ts, lines 106 to 112.)
\<close>

theorem start_command:
  "effects (webhook_handler P w (text_message c ''/start'')) =
     SendChatAction c # (if loaded w c = LoggedOut then [ReportEvent Start] else [])
   \<and> (ReportEvent Start \<in> set (effects (webhook_handler P w (text_message c ''/start'')))
        \<longleftrightarrow> loaded w c = LoggedOut)
   \<and> filter is_kv_op (effects (webhook_handler P w (text_message c ''/start''))) = []
   \<and> kv_after w (webhook_handler P w (text_message c ''/start'')) = kv w
   \<and> result (webhook_handler P w (text_message c ''/start''))
       = Inr (sendTgMessage (Some c) onboarding_text False)"
  by (simp add: handler_text on_text_start kv_after_def status_logged_out)

subsection \<open>C10: the texts /stop and /search\<close>

lemma no_stop_event_on_text: "ReportEvent Stop \<notin> set (fst (on_text P v c t))"
proof (cases v)
  case AwaitingPhoneNo
  show ?thesis
  proof (cases "startsWith t ''/''")
    case True
    with AwaitingPhoneNo show ?thesis by (simp add: on_text_slash)
  next
    case False
    with AwaitingPhoneNo show ?thesis by (simp add: on_text_phone split: sum.splits)
  qed
next
  case (AwaitingOtp ph lr)
  show ?thesis
  proof (cases "startsWith t ''/''")
    case True
    with AwaitingOtp show ?thesis by (simp add: on_text_slash)
  next
    case False
    with AwaitingOtp show ?thesis by (simp add: on_text_otp split: sum.splits)
  qed
next
  case AwaitingInstallationId
  then show ?thesis by (simp add: on_text_def)
next
  case (AwaitingCountryCode i)
  then show ?thesis by (simp add: on_text_def)
next
  case (LoggedIn i cc)
  show ?thesis
  proof (cases "t = ''/start'' \<or> t = ''/info'' \<or> t = ''/installation_id''
           \<or> t = ''/logout'' \<or> t = ''/login''")
    case True
    show ?thesis
      unfolding LoggedIn on_text_logged_in_command [OF True] by simp
  next
    case False
    then have n: "t \<noteq> ''/start''" "t \<noteq> ''/info''" "t \<noteq> ''/installation_id''"
      "t \<noteq> ''/logout''" "t \<noteq> ''/login''"
      by simp_all
    show ?thesis
      unfolding LoggedIn on_text_logged_in [OF n]
      by (simp split: sum.splits SearchResult.splits)
  qed
next
  case LoggedOut
  then show ?thesis by (simp add: on_text_def)
qed

lemma stop_event_iff_kicked:
  "ReportEvent Stop \<in> set (effects (webhook_handler P w r)) \<longleftrightarrow>
     http_method r = ''POST'' \<and>
     (\<exists>u m. json r = Some u \<and> my_chat_member u = Some m \<and> new_chat_member_status m = ''kicked'')"
  by (auto simp add: webhook_handler_def Let_def kicked_chat_def truthy_text_def
        case_prod_beta no_stop_event_on_text split: option.splits if_splits)

text \<open>
  C10: \<^verbatim>\<open>/stop\<close> and \<^verbatim>\<open>/search\<close> are members of the type \<^verbatim>\<open>BotCommand\<close>, yet no branch
  compares the text of a message with them. In state LoggedIn a message with one of these
  two texts goes to the search, with the text itself as the number to look up, and does not
  call \<^verbatim>\<open>reportEvent("/stop")\<close>. On any request, \<^verbatim>\<open>reportEvent("/stop")\<close> is called exactly when
  the request is a POST whose update reports a membership change to the status
  \<^verbatim>\<open>kicked\<close>. (src/index.ts, lines 16 to 23, 62 to 71 and 303 to 335.)
\<close>

theorem stop_and_search_texts:
  assumes "loaded w c = LoggedIn i cc" and "t = ''/stop'' \<or> t = ''/search''"
  shows "t \<in> command_text ` {Stop, Search}
         \<and> take 2 (effects (webhook_handler P w (text_message c t)))
             = [SendChatAction c, CallSearch \<lparr>number = t, countryCode = cc, installationId = i\<rparr>]
         \<and> ReportEvent Stop \<notin> set (effects (webhook_handler P w (text_message c t)))
         \<and> (ReportEvent Stop \<in> set (effects (webhook_handler P w r)) \<longleftrightarrow>
              http_method r = ''POST'' \<and>
              (\<exists>u m. json r = Some u \<and> my_chat_member u = Some m
                     \<and> new_chat_member_status m = ''kicked''))"
proof -
  from assms(2) have n: "t \<noteq> ''/start''" "t \<noteq> ''/info''" "t \<noteq> ''/installation_id''"
      "t \<noteq> ''/logout''" "t \<noteq> ''/login''" "t \<noteq> []"
    by auto
  have a: "t \<in> command_text ` {Stop, Search}"
    using assms(2) by auto
  have b: "take 2 (effects (webhook_handler P w (text_message c t)))
             = [SendChatAction c, CallSearch \<lparr>number = t, countryCode = cc, installationId = i\<rparr>]"
    by (simp add: handler_text n assms(1) on_text_logged_in [OF n(1-5)]
          split: sum.splits SearchResult.splits)
  have c: "ReportEvent Stop \<notin> set (effects (webhook_handler P w (text_message c t)))"
    by (simp add: handler_text n no_stop_event_on_text)
  from a b c stop_event_iff_kicked [of P w r] show ?thesis
    by blast
qed

theorem stop_and_search_texts_witness:
  "take 2 (effects (webhook_handler provider0 (world0 (Some (LoggedIn ''a1i0X'' ''IN'')))
      (text_message 7 ''/stop'')))
     = [SendChatAction 7,
        CallSearch \<lparr>number = ''/stop'', countryCode = ''IN'', installationId = ''a1i0X''\<rparr>]
   \<and> ReportEvent Stop \<notin> set (effects (webhook_handler provider0
        (world0 (Some (LoggedIn ''a1i0X'' ''IN''))) (text_message 7 ''/stop'')))
   \<and> ReportEvent Stop \<in> set (effects (webhook_handler provider0
        (world0 (Some (LoggedIn ''a1i0X'' ''IN''))) (member_update 7 ''kicked'')))"
  using stop_and_search_texts [of "world0 (Some (LoggedIn ''a1i0X'' ''IN''))" 7 "''a1i0X''"
          "''IN''" "''/stop''" provider0 "member_update 7 ''kicked''"]
  by (simp add: world0_def loaded_def member_update_def)

end
